theory Spec2Isabelle
  imports Complex_Main
begin

section \<open>Celebrity-recognition client: data returned by the video API\<close>

text \<open>
  The notebook reads three fields of a \<open>get_celebrity_recognition\<close> response:
  \<open>JobStatus\<close>, and in each element of \<open>Celebrities\<close> the \<open>Timestamp\<close> and the
  optional \<open>Celebrity\<close> entry with its \<open>Name\<close> and \<open>Confidence\<close>. The source tests
  \<open>'Celebrity' in celebrity\<close>, so that entry is an option. \<open>Confidence\<close> is a
  JSON number; the only operation the loop applies to it is the comparison with the
  integer 95, which Python evaluates exactly, so the value is kept as a real.
\<close>

record celebrity_detail =
  Name :: string
  Confidence :: real

record celebrity_recognition =
  Timestamp :: int
  Celebrity :: "celebrity_detail option"

record get_celebrity_recognition_response =
  JobStatus :: string
  Celebrities :: "celebrity_recognition list"

section \<open>Display of the celebrities recognised in the video\<close>

text \<open>
  \<^verbatim>\<open>
  theCelebs = {}
  strDetail = "Celebrites detected in video<br>=======================================<br>"
  strOverall = "Celebrities in the overall video:<br>=======================================<br>"
  for celebrity in getCelebrityRecognition['Celebrities']:
      if 'Celebrity' in celebrity :
          cconfidence = celebrity["Celebrity"]["Confidence"]
          if(cconfidence > 95):
              ts = celebrity ["Timestamp"]
              cname = celebrity["Celebrity"]["Name"]
              strDetail = strDetail + "At {} ms: {} (Confidence: {})<br>".format(ts, cname, round(cconfidence,2))
              if not cname in theCelebs:
                  theCelebs[cname] = cname
  for theCeleb in theCelebs:
      strOverall = strOverall + "Name: {}<br>".format(theCeleb)
  display(HTML(strOverall))
  \<close>
  The dictionary \<open>theCelebs\<close> is iterated in insertion order, so it is an association
  list that is only ever extended at its end, and only by keys it does not hold.
  The text of a number inside \<open>strDetail\<close> is produced by Python's \<open>format\<close> and
  \<open>round\<close>; the model takes that rendering as the parameter \<open>fmt\<close>.
\<close>

record video_display =
  theCelebs :: "(string \<times> string) list"
  strDetail :: string
  strOverall :: string

definition strDetail_header :: string where
  "strDetail_header = ''Celebrites detected in video<br>=======================================<br>''"

definition strOverall_header :: string where
  "strOverall_header = ''Celebrities in the overall video:<br>=======================================<br>''"

definition in_dict :: "string \<Rightarrow> (string \<times> string) list \<Rightarrow> bool" where
  "in_dict k d = (k \<in> set (map fst d))"

definition detail_line :: "(int \<Rightarrow> string) \<times> (real \<Rightarrow> string) \<Rightarrow> int \<Rightarrow> string \<Rightarrow> real \<Rightarrow> string" where
  "detail_line fmt ts cname cconfidence =
     ''At '' @ fst fmt ts @ '' ms: '' @ cname @ '' (Confidence: '' @ snd fmt cconfidence @ '')<br>''"

definition celebrity_step ::
  "(int \<Rightarrow> string) \<times> (real \<Rightarrow> string) \<Rightarrow> video_display \<Rightarrow> celebrity_recognition \<Rightarrow> video_display" where
  "celebrity_step fmt st celebrity =
     (case Celebrity celebrity of
        None \<Rightarrow> st
      | Some c \<Rightarrow>
          (if Confidence c > 95
           then st\<lparr> strDetail := strDetail st @ detail_line fmt (Timestamp celebrity) (Name c) (Confidence c),
                    theCelebs := (if \<not> in_dict (Name c) (theCelebs st)
                                  then theCelebs st @ [(Name c, Name c)]
                                  else theCelebs st) \<rparr>
           else st))"

definition overall_line :: "string \<Rightarrow> string" where
  "overall_line theCeleb = ''Name: '' @ theCeleb @ ''<br>''"

definition display_celebrities ::
  "(int \<Rightarrow> string) \<times> (real \<Rightarrow> string) \<Rightarrow> get_celebrity_recognition_response \<Rightarrow> video_display" where
  "display_celebrities fmt getCelebrityRecognition =
     (let st0 = \<lparr> theCelebs = [], strDetail = strDetail_header, strOverall = strOverall_header \<rparr>;
          st1 = foldl (celebrity_step fmt) st0 (Celebrities getCelebrityRecognition)
      in st1\<lparr> strOverall := foldl (\<lambda>s theCeleb. s @ overall_line theCeleb)
                                   (strOverall st1) (map fst (theCelebs st1)) \<rparr>)"











text \<open>
  A response with two confident detections of one name, a detection below the
  threshold and an element without a \<open>Celebrity\<close> entry shows the name once.
\<close>

definition sample_response :: get_celebrity_recognition_response where
  "sample_response =
     \<lparr> JobStatus = ''SUCCEEDED'',
       Celebrities =
         [\<lparr> Timestamp = 0, Celebrity = Some \<lparr> Name = ''Jeremy Clarkson'', Confidence = 99.5 \<rparr> \<rparr>,
          \<lparr> Timestamp = 500, Celebrity = None \<rparr>,
          \<lparr> Timestamp = 1000, Celebrity = Some \<lparr> Name = ''James May'', Confidence = 95 \<rparr> \<rparr>,
          \<lparr> Timestamp = 1500, Celebrity = Some \<lparr> Name = ''Jeremy Clarkson'', Confidence = 97 \<rparr> \<rparr>] \<rparr>"

lemma display_celebrities_sample:
  "strOverall (display_celebrities fmt sample_response)
     = ''Celebrities in the overall video:<br>=======================================<br>''
       @ ''Name: Jeremy Clarkson<br>''"
  by (simp add: display_celebrities_def sample_response_def celebrity_step_def in_dict_def
      strOverall_header_def strDetail_header_def overall_line_def)

section \<open>Bounding boxes drawn on a recognised image\<close>

text \<open>
  Everything that can raise in the notebooks is a value of this type: an error of a
  remote SDK call with its code, and the Python errors the scripts can meet.
\<close>

datatype error =
    SdkError string
  | NameError string
  | UnboundLocalError string
  | KeyError string
  | OSError string

text \<open>
  \<^verbatim>\<open>
  def drawBoundingBoxes (sourceImage, boxes):
      # blue, green, red, grey
      colors = ((255,255,255),(255,255,255),(76,182,252),(52,194,123))
      imageLocation = tempFolder+os.path.basename(sourceImage)
      s3.download_file(bucketName, sourceImage, imageLocation)
      bbImage = Image.open(imageLocation)
      draw = ImageDraw.Draw(bbImage)
      width, height = bbImage.size
      col = 0
      maxcol = len(colors)
      line= 3
      for box in boxes:
          x1 = int(box[1]['Left'] * width)
          y1 = int(box[1]['Top'] * height)
          x2 = int(box[1]['Left'] * width + box[1]['Width'] * width)
          y2 = int(box[1]['Top'] * height + box[1]['Height']  * height)
          draw.text((x1,y1),box[0],colors[col])
          for l in range(line):
              draw.rectangle((x1-l,y1-l,x2+l,y2+l),outline=colors[col])
          col = (col+1)%maxcol
      imageFormat = "PNG"
      ext = sourceImage.lower()
      if(ext.endswith('jpg') or ext.endswith('jpeg')):
          imageFormat = 'JPEG'
      bbImage.save(imageLocation,format=imageFormat)
      display(bbImage)
  \<close>
  A box is the pair the callers build: a label and the \<open>BoundingBox\<close> dictionary of
  the response, whose four entries are ratios of the image size. The pixel
  coordinates are computed in floating point by the source; the model computes them
  over the reals, with \<open>int\<close> truncating towards zero. The three calls that leave
  the process (the download, opening the file, saving it) are the fields of
  \<open>image_io\<close>; each may raise.
\<close>

record bounding_box =
  Left :: real
  Top :: real
  Width :: real
  Height :: real

type_synonym box = "string \<times> bounding_box"

type_synonym colour = "nat \<times> nat \<times> nat"

datatype draw_op =
    Text "int \<times> int" string colour
  | Rectangle "int \<times> int \<times> int \<times> int" colour


record image_io =
  download_file :: "string \<Rightarrow> string \<Rightarrow> string \<Rightarrow> error option"
  image_open :: "string \<Rightarrow> error + nat \<times> nat"
  image_save :: "string \<Rightarrow> string \<Rightarrow> error option"

record annotated_image =
  saved_at :: string
  saved_format :: string
  drawn :: "draw_op list"

definition colors :: "colour list" where
  "colors = [(255,255,255), (255,255,255), (76,182,252), (52,194,123)]"

definition maxcol :: nat where
  "maxcol = length colors"

definition line :: nat where
  "line = 3"

definition py_int :: "real \<Rightarrow> int" where
  "py_int x = (if 0 \<le> x then \<lfloor>x\<rfloor> else \<lceil>x\<rceil>)"

text \<open>\<open>os.path.basename\<close>: what follows the last slash.\<close>

fun basename_from :: "string \<Rightarrow> string \<Rightarrow> string" where
  "basename_from acc [] = acc"
| "basename_from acc (c # cs) =
     (if c = CHR ''/'' then basename_from [] cs else basename_from (acc @ [c]) cs)"

definition basename :: "string \<Rightarrow> string" where
  "basename p = basename_from [] p"

text \<open>
  \<open>str.lower\<close> on the ASCII letters; a \<open>char\<close> is a byte, and the bytes of a
  character outside ASCII are left as they are.
\<close>

definition lower_char :: "char \<Rightarrow> char" where
  "lower_char c =
     (case map_of (zip ''ABCDEFGHIJKLMNOPQRSTUVWXYZ'' ''abcdefghijklmnopqrstuvwxyz'') c of
        Some l \<Rightarrow> l
      | None \<Rightarrow> c)"

definition lower :: "string \<Rightarrow> string" where
  "lower s = map lower_char s"

definition endswith :: "string \<Rightarrow> string \<Rightarrow> bool" where
  "endswith s suffix =
     (length suffix \<le> length s \<and> drop (length s - length suffix) s = suffix)"

text \<open>The body of \<open>for box in boxes\<close>, with the loop variable \<open>col\<close> passed along.\<close>

fun draw_boxes :: "nat \<Rightarrow> nat \<Rightarrow> box list \<Rightarrow> nat \<Rightarrow> draw_op list" where
  "draw_boxes width height [] col = []"
| "draw_boxes width height (box # boxes) col =
     (let x1 = py_int (Left (snd box) * real width);
          y1 = py_int (Top (snd box) * real height);
          x2 = py_int (Left (snd box) * real width + Width (snd box) * real width);
          y2 = py_int (Top (snd box) * real height + Height (snd box) * real height)
      in Text (x1, y1) (fst box) (colors ! col)
         # map (\<lambda>l. Rectangle (x1 - int l, y1 - int l, x2 + int l, y2 + int l) (colors ! col))
               [0 ..< line]
         @ draw_boxes width height boxes ((col + 1) mod maxcol))"

definition drawBoundingBoxes ::
  "image_io \<Rightarrow> string \<Rightarrow> string \<Rightarrow> string \<Rightarrow> box list \<Rightarrow> error + annotated_image" where
  "drawBoundingBoxes io tempFolder bucketName sourceImage boxes =
     (let imageLocation = tempFolder @ basename sourceImage in
      case download_file io bucketName sourceImage imageLocation of
        Some e \<Rightarrow> Inl e
      | None \<Rightarrow>
         (case image_open io imageLocation of
            Inl e \<Rightarrow> Inl e
          | Inr (width, height) \<Rightarrow>
             (let ops = draw_boxes width height boxes 0;
                  ext = lower sourceImage;
                  imageFormat = (if endswith ext ''jpg'' \<or> endswith ext ''jpeg''
                                 then ''JPEG'' else ''PNG'')
              in case image_save io imageLocation imageFormat of
                   Some e \<Rightarrow> Inl e
                 | None \<Rightarrow> Inr \<lparr> saved_at = imageLocation, saved_format = imageFormat,
                                  drawn = ops \<rparr>)))"








text \<open>When none of the three calls raises, the function returns the annotated image.\<close>

lemma drawBoundingBoxes_returns:
  assumes "download_file io bucketName sourceImage (tempFolder @ basename sourceImage) = None"
    and "image_open io (tempFolder @ basename sourceImage) = Inr (width, height)"
    and "\<forall>fmt. image_save io (tempFolder @ basename sourceImage) fmt = None"
  shows "\<exists>img. drawBoundingBoxes io tempFolder bucketName sourceImage boxes = Inr img"
  using assms by (simp add: drawBoundingBoxes_def Let_def)





section \<open>Celebrity-recognition client: calls, events and notebook variables\<close>

text \<open>
  What a cell does besides binding variables is recorded as a list of events: the SDK
  calls it makes (with the arguments that identify them), the seconds it sleeps, what
  it prints and displays, the shell commands it runs with \<open>!\<close> and the variables
  it hands to \<open>%store\<close>.
\<close>

datatype event =
    Called string "string list"
  | Sleep nat
  | Print string
  | Display string
  | Shell string
  | Store string string

text \<open>
  The image API answers with the recognised \<open>CelebrityFaces\<close>, each with a \<open>Name\<close>
  and a \<open>Face\<close> holding its \<open>BoundingBox\<close>, and with the \<open>UnrecognizedFaces\<close>, each
  with its \<open>BoundingBox\<close>.
\<close>

record compared_face =
  BoundingBox :: bounding_box

record celebrity =
  Name :: string
  Face :: compared_face

record recognize_celebrities_response =
  CelebrityFaces :: "celebrity list"
  UnrecognizedFaces :: "compared_face list"

text \<open>
  The remote service, as the three operations the notebook calls. Each returns its
  response or raises. \<open>start_celebrity_recognition\<close> is reduced to the \<open>JobId\<close> of
  its response, the one field the notebook reads. The answer of
  \<open>get_celebrity_recognition\<close> changes while the job runs, so it also depends on how
  many times the notebook has asked before.
\<close>

type_synonym get_api = "nat \<Rightarrow> string \<Rightarrow> string \<Rightarrow> error + get_celebrity_recognition_response"

record rekognition =
  recognize_celebrities :: "string \<Rightarrow> string \<Rightarrow> error + recognize_celebrities_response"
  start_celebrity_recognition :: "string \<Rightarrow> string \<Rightarrow> error + string"
  get_celebrity_recognition :: get_api

definition get_call :: "string \<Rightarrow> event" where
  "get_call jobId = Called ''get_celebrity_recognition'' [jobId, ''TIMESTAMP'']"

definition poll_step :: "string \<Rightarrow> event list" where
  "poll_step jobId = [Sleep 5, Print ''.'', get_call jobId]"

text \<open>
  \<^verbatim>\<open>
  getCelebrityRecognition = rekognition.get_celebrity_recognition(
      JobId=celebrityJobId,
      SortBy='TIMESTAMP'
  )
  while(getCelebrityRecognition['JobStatus'] == 'IN_PROGRESS'):
      time.sleep(5)
      print('.', end='')
      getCelebrityRecognition = rekognition.get_celebrity_recognition(
      JobId=celebrityJobId,
      SortBy='TIMESTAMP')
  display(getCelebrityRecognition['JobStatus'])
  \<close>
  The loop may run forever, so it is a partial function: \<open>None\<close> is the run that
  never leaves the loop. \<open>n\<close> counts the calls made so far, \<open>tr\<close> is the events so
  far and \<open>cur\<close> the response bound to \<open>getCelebrityRecognition\<close>. The result is the
  events, the exception that ended the loop if there is one, and the last binding.
\<close>

partial_function (option) poll_loop ::
  "get_api \<Rightarrow> string \<Rightarrow> nat \<Rightarrow> event list \<Rightarrow> get_celebrity_recognition_response
     \<Rightarrow> (event list \<times> error option \<times> get_celebrity_recognition_response) option" where
  "poll_loop get jobId n tr cur =
     (if JobStatus cur = ''IN_PROGRESS''
      then (case get n jobId ''TIMESTAMP'' of
              Inl e \<Rightarrow> Some (tr @ poll_step jobId, Some e, cur)
            | Inr r \<Rightarrow> poll_loop get jobId (Suc n) (tr @ poll_step jobId) r)
      else Some (tr, None, cur))"


text \<open>
  The variables of the notebook that its cells bind from service answers; \<open>None\<close> is
  a name that is not bound yet. \<open>bucketName\<close> is bound by the setup cells.
\<close>

record kernel =
  bucketName :: string
  recognizeCelebritiesResponse :: "recognize_celebrities_response option"
  boxes :: "box list option"
  celebrityJobId :: "string option"
  getCelebrityRecognition :: "get_celebrity_recognition_response option"
  customCelebrityResponse :: "recognize_celebrities_response option"
  cboxes :: "box list option"

definition tempFolder :: string where
  "tempFolder = ''m1tmp/''"

definition imageName :: string where
  "imageName = ''content-moderation/media/GrandTourjc.png''"


definition customCelebrityImageName :: string where
  "customCelebrityImageName = ''content-moderation/media/serverless-bytes.png''"

text \<open>
  A cell run on the variables gives the variables after it, its events, and the
  exception that ended it, if one did.
  \<^verbatim>\<open>
  recognizeCelebritiesResponse = rekognition.recognize_celebrities(
      Image={'S3Object': {'Bucket': bucketName, 'Name': imageName}})
  \<close>
\<close>

definition recognize_cell :: "rekognition \<Rightarrow> kernel \<Rightarrow> kernel \<times> event list \<times> error option" where
  "recognize_cell svc k =
     (case recognize_celebrities svc (bucketName k) imageName of
        Inl e \<Rightarrow> (k, [Called ''recognize_celebrities'' [bucketName k, imageName]], Some e)
      | Inr r \<Rightarrow> (k\<lparr> recognizeCelebritiesResponse := Some r \<rparr>,
                  [Called ''recognize_celebrities'' [bucketName k, imageName]], None))"

text \<open>
  \<^verbatim>\<open>
  boxes = []
  celebrities = recognizeCelebritiesResponse['CelebrityFaces']
  for celebrity in celebrities:
      boxes.append ((celebrity['Name'], celebrity['Face']['BoundingBox']))
  drawBoundingBoxes(imageName, boxes)
  \<close>
\<close>

definition show_boxes_cell :: "image_io \<Rightarrow> kernel \<Rightarrow> kernel \<times> event list \<times> error option" where
  "show_boxes_cell io k =
     (case recognizeCelebritiesResponse k of
        None \<Rightarrow> (k\<lparr> boxes := Some [] \<rparr>, [], Some (NameError ''recognizeCelebritiesResponse''))
      | Some resp \<Rightarrow>
         (let bs = map (\<lambda>c. (Name c, BoundingBox (Face c))) (CelebrityFaces resp) in
          case drawBoundingBoxes io tempFolder (bucketName k) imageName bs of
            Inl e \<Rightarrow> (k\<lparr> boxes := Some bs \<rparr>, [Called ''download_file'' [bucketName k, imageName]], Some e)
          | Inr img \<Rightarrow> (k\<lparr> boxes := Some bs \<rparr>,
                         [Called ''download_file'' [bucketName k, imageName], Display (saved_at img)],
                         None)))"


text \<open>The cell that waits for the job: the first call, the loop, the final display.\<close>

definition wait_cell :: "rekognition \<Rightarrow> kernel \<Rightarrow> (kernel \<times> event list \<times> error option) option" where
  "wait_cell svc k =
     (case celebrityJobId k of
        None \<Rightarrow> Some (k, [], Some (NameError ''celebrityJobId''))
      | Some jobId \<Rightarrow>
         (case get_celebrity_recognition svc 0 jobId ''TIMESTAMP'' of
            Inl e \<Rightarrow> Some (k, [get_call jobId], Some e)
          | Inr r \<Rightarrow>
             (case poll_loop (get_celebrity_recognition svc) jobId 1 [get_call jobId] r of
                None \<Rightarrow> None
              | Some (tr, Some e, cur) \<Rightarrow> Some (k\<lparr> getCelebrityRecognition := Some cur \<rparr>, tr, Some e)
              | Some (tr, None, cur) \<Rightarrow>
                  Some (k\<lparr> getCelebrityRecognition := Some cur \<rparr>,
                        tr @ [Display (JobStatus cur)], None))))"


text \<open>
  \<^verbatim>\<open>
  cboxes = []
  faces = customCelebrityResponse['UnrecognizedFaces']
  for face in faces:
      cboxes.append (('Unrecognized Face', face['BoundingBox']))
  drawBoundingBoxes(customCelebrityImageName, cboxes)
  \<close>
\<close>

definition show_unrecognized_cell :: "image_io \<Rightarrow> kernel \<Rightarrow> kernel \<times> event list \<times> error option" where
  "show_unrecognized_cell io k =
     (case customCelebrityResponse k of
        None \<Rightarrow> (k\<lparr> cboxes := Some [] \<rparr>, [], Some (NameError ''customCelebrityResponse''))
      | Some resp \<Rightarrow>
         (let bs = map (\<lambda>face. (''Unrecognized Face'', BoundingBox face)) (UnrecognizedFaces resp) in
          case drawBoundingBoxes io tempFolder (bucketName k) customCelebrityImageName bs of
            Inl e \<Rightarrow> (k\<lparr> cboxes := Some bs \<rparr>,
                       [Called ''download_file'' [bucketName k, customCelebrityImageName]], Some e)
          | Inr img \<Rightarrow> (k\<lparr> cboxes := Some bs \<rparr>,
                         [Called ''download_file'' [bucketName k, customCelebrityImageName],
                          Display (saved_at img)],
                         None)))"

text \<open>
  An answer keeps the loop going when it is a response whose \<open>JobStatus\<close> is
  \<open>IN_PROGRESS\<close>. \<open>polls_trace jobId n\<close> is the events of a wait that ends at its
  call number \<open>n\<close>, counted from 0: the first call, then \<open>n\<close> times a sleep of five
  seconds, a dot and the next call.
\<close>

definition in_progress :: "error + get_celebrity_recognition_response \<Rightarrow> bool" where
  "in_progress answer = (case answer of Inl e \<Rightarrow> False | Inr r \<Rightarrow> JobStatus r = ''IN_PROGRESS'')"

definition polls_trace :: "string \<Rightarrow> nat \<Rightarrow> event list" where
  "polls_trace jobId n = get_call jobId # concat (replicate n (poll_step jobId))"

lemma in_progress_Inr: "in_progress a \<Longrightarrow> \<exists>r. a = Inr r \<and> JobStatus r = ''IN_PROGRESS''"
  by (cases a) (simp_all add: in_progress_def)

lemma poll_loop_done:
  "JobStatus cur \<noteq> ''IN_PROGRESS'' \<Longrightarrow> poll_loop get jobId n tr cur = Some (tr, None, cur)"
  by (subst poll_loop.simps) simp

lemma poll_loop_error:
  "JobStatus cur = ''IN_PROGRESS'' \<Longrightarrow> get n jobId ''TIMESTAMP'' = Inl e \<Longrightarrow>
   poll_loop get jobId n tr cur = Some (tr @ poll_step jobId, Some e, cur)"
  by (subst poll_loop.simps) simp

lemma poll_loop_again:
  "JobStatus cur = ''IN_PROGRESS'' \<Longrightarrow> get n jobId ''TIMESTAMP'' = Inr r \<Longrightarrow>
   poll_loop get jobId n tr cur = poll_loop get jobId (Suc n) (tr @ poll_step jobId) r"
  by (subst poll_loop.simps) simp

lemma poll_loop_returns:
  assumes "\<forall>i<m. in_progress (get (n + i) jobId ''TIMESTAMP'')"
    and "get (n + m) jobId ''TIMESTAMP'' = Inr r"
    and "JobStatus r \<noteq> ''IN_PROGRESS''"
    and "JobStatus cur = ''IN_PROGRESS''"
  shows "poll_loop get jobId n tr cur
           = Some (tr @ concat (replicate (Suc m) (poll_step jobId)), None, r)"
  using assms
proof (induction m arbitrary: n tr cur)
  case 0
  then show ?case
    by (simp add: poll_loop_again [where get = get and n = n and jobId = jobId and r = r]
        poll_loop_done)
next
  case (Suc m)
  from Suc.prems(1) have "in_progress (get (n + 0) jobId ''TIMESTAMP'')" by blast
  then obtain r0 where r0: "get n jobId ''TIMESTAMP'' = Inr r0" "JobStatus r0 = ''IN_PROGRESS''"
    using in_progress_Inr by fastforce
  have shift: "\<forall>i<m. in_progress (get (Suc n + i) jobId ''TIMESTAMP'')"
    using Suc.prems(1) by (metis Suc_less_eq add_Suc_right add_Suc)
  have last: "get (Suc n + m) jobId ''TIMESTAMP'' = Inr r"
    using Suc.prems(2) by simp
  have "poll_loop get jobId n tr cur = poll_loop get jobId (Suc n) (tr @ poll_step jobId) r0"
    by (rule poll_loop_again [where get = get and n = n and jobId = jobId, OF Suc.prems(4) r0(1)])
  also have "\<dots> = Some ((tr @ poll_step jobId) @ concat (replicate (Suc m) (poll_step jobId)), None, r)"
    by (rule Suc.IH [OF shift last Suc.prems(3) r0(2)])
  finally show ?case by simp
qed

lemma poll_loop_raises:
  assumes "\<forall>i<m. in_progress (get (n + i) jobId ''TIMESTAMP'')"
    and "get (n + m) jobId ''TIMESTAMP'' = Inl e"
    and "JobStatus cur = ''IN_PROGRESS''"
  shows "\<exists>prev. poll_loop get jobId n tr cur
           = Some (tr @ concat (replicate (Suc m) (poll_step jobId)), Some e, prev)
         \<and> JobStatus prev = ''IN_PROGRESS''
         \<and> (if m = 0 then prev = cur else get (n + m - 1) jobId ''TIMESTAMP'' = Inr prev)"
  using assms
proof (induction m arbitrary: n tr cur)
  case 0
  then show ?case
    by (simp add: poll_loop_error [where get = get and n = n and jobId = jobId and e = e])
next
  case (Suc m)
  from Suc.prems(1) have "in_progress (get (n + 0) jobId ''TIMESTAMP'')" by blast
  then obtain r0 where r0: "get n jobId ''TIMESTAMP'' = Inr r0" "JobStatus r0 = ''IN_PROGRESS''"
    using in_progress_Inr by fastforce
  have shift: "\<forall>i<m. in_progress (get (Suc n + i) jobId ''TIMESTAMP'')"
    using Suc.prems(1) by (metis Suc_less_eq add_Suc_right add_Suc)
  have last: "get (Suc n + m) jobId ''TIMESTAMP'' = Inl e"
    using Suc.prems(2) by simp
  have step: "poll_loop get jobId n tr cur = poll_loop get jobId (Suc n) (tr @ poll_step jobId) r0"
    by (rule poll_loop_again [where get = get and n = n and jobId = jobId, OF Suc.prems(3) r0(1)])
  from Suc.IH [OF shift last r0(2), of "tr @ poll_step jobId"] obtain prev where
    prev: "poll_loop get jobId (Suc n) (tr @ poll_step jobId) r0
             = Some ((tr @ poll_step jobId) @ concat (replicate (Suc m) (poll_step jobId)), Some e, prev)"
      "JobStatus prev = ''IN_PROGRESS''"
      "if m = 0 then prev = r0 else get (Suc n + m - 1) jobId ''TIMESTAMP'' = Inr prev"
    by blast
  have "get (n + Suc m - 1) jobId ''TIMESTAMP'' = Inr prev"
    using prev(3) r0(1) by (cases m) simp_all
  with prev(1,2) step show ?case by simp
qed

lemma poll_loop_Some_stops:
  assumes "poll_loop get jobId n tr cur = Some out"
  shows "JobStatus cur \<noteq> ''IN_PROGRESS'' \<or> (\<exists>i. \<not> in_progress (get (n + i) jobId ''TIMESTAMP''))"
proof (rule poll_loop.raw_induct
    [where P = "\<lambda>get jobId n tr cur out. JobStatus cur \<noteq> ''IN_PROGRESS''
                  \<or> (\<exists>i. \<not> in_progress (get (n + i) jobId ''TIMESTAMP''))", OF _ assms])
  fix f :: "get_api \<Rightarrow> string \<Rightarrow> nat \<Rightarrow> event list \<Rightarrow> get_celebrity_recognition_response
     \<Rightarrow> (event list \<times> error option \<times> get_celebrity_recognition_response) option"
    and get jobId n tr cur out
  assume IH: "\<And>get jobId n tr cur out. f get jobId n tr cur = Some out \<Longrightarrow>
      JobStatus cur \<noteq> ''IN_PROGRESS'' \<or> (\<exists>i. \<not> in_progress (get (n + i) jobId ''TIMESTAMP''))"
    and eq: "(if JobStatus cur = ''IN_PROGRESS''
      then (case get n jobId ''TIMESTAMP'' of
              Inl e \<Rightarrow> Some (tr @ poll_step jobId, Some e, cur)
            | Inr r \<Rightarrow> f get jobId (Suc n) (tr @ poll_step jobId) r)
      else Some (tr, None, cur)) = Some out"
  show "JobStatus cur \<noteq> ''IN_PROGRESS'' \<or> (\<exists>i. \<not> in_progress (get (n + i) jobId ''TIMESTAMP''))"
  proof (cases "JobStatus cur = ''IN_PROGRESS''")
    case False
    then show ?thesis by simp
  next
    case True
    show ?thesis
    proof (cases "get n jobId ''TIMESTAMP''")
      case (Inl e)
      then have "\<not> in_progress (get (n + 0) jobId ''TIMESTAMP'')" by (simp add: in_progress_def)
      then show ?thesis by blast
    next
      case (Inr r)
      with eq True have "f get jobId (Suc n) (tr @ poll_step jobId) r = Some out" by simp
      from IH [OF this] consider "JobStatus r \<noteq> ''IN_PROGRESS''"
        | i where "\<not> in_progress (get (Suc n + i) jobId ''TIMESTAMP'')" by blast
      then show ?thesis
      proof cases
        case 1
        with Inr have "\<not> in_progress (get (n + 0) jobId ''TIMESTAMP'')" by (simp add: in_progress_def)
        then show ?thesis by blast
      next
        case 2
        then have "\<not> in_progress (get (n + Suc i) jobId ''TIMESTAMP'')" by simp
        then show ?thesis by blast
      qed
    qed
  qed
qed

lemma poll_loop_forever:
  assumes "JobStatus cur = ''IN_PROGRESS''"
    and "\<forall>i. in_progress (get (n + i) jobId ''TIMESTAMP'')"
  shows "poll_loop get jobId n tr cur = None"
proof (cases "poll_loop get jobId n tr cur")
  case None
  then show ?thesis .
next
  case (Some out)
  from poll_loop_Some_stops [OF Some] assms show ?thesis by blast
qed

lemma polls_trace_Suc:
  "[get_call jobId] @ concat (replicate (Suc m) (poll_step jobId)) = polls_trace jobId (Suc m)"
  by (simp add: polls_trace_def)

lemma wait_cell_returns:
  assumes job: "celebrityJobId k = Some jobId"
    and before: "\<forall>i<n. in_progress (get_celebrity_recognition svc i jobId ''TIMESTAMP'')"
    and at: "get_celebrity_recognition svc n jobId ''TIMESTAMP'' = Inr r"
    and fin: "JobStatus r \<noteq> ''IN_PROGRESS''"
  shows "wait_cell svc k
           = Some (k\<lparr> getCelebrityRecognition := Some r \<rparr>,
                   polls_trace jobId n @ [Display (JobStatus r)], None)"
proof (cases n)
  case 0
  with at fin show ?thesis
    by (simp add: wait_cell_def job poll_loop_done polls_trace_def)
next
  case (Suc m)
  with before have "in_progress (get_celebrity_recognition svc 0 jobId ''TIMESTAMP'')" by blast
  then obtain r0 where r0: "get_celebrity_recognition svc 0 jobId ''TIMESTAMP'' = Inr r0"
      "JobStatus r0 = ''IN_PROGRESS''"
    using in_progress_Inr by blast
  have shift: "\<forall>i<m. in_progress (get_celebrity_recognition svc (1 + i) jobId ''TIMESTAMP'')"
    using before Suc by simp
  have last: "get_celebrity_recognition svc (1 + m) jobId ''TIMESTAMP'' = Inr r"
    using at Suc by simp
  have "poll_loop (get_celebrity_recognition svc) jobId 1 [get_call jobId] r0
          = Some ([get_call jobId] @ concat (replicate (Suc m) (poll_step jobId)), None, r)"
    by (rule poll_loop_returns [where get = "get_celebrity_recognition svc" and n = 1 and jobId = jobId and m = m, OF shift last fin r0(2)])
  then show ?thesis
    unfolding polls_trace_Suc by (simp add: wait_cell_def job r0(1) Suc)
qed

lemma wait_cell_raises:
  assumes job: "celebrityJobId k = Some jobId"
    and before: "\<forall>i<n. in_progress (get_celebrity_recognition svc i jobId ''TIMESTAMP'')"
    and at: "get_celebrity_recognition svc n jobId ''TIMESTAMP'' = Inl e"
  shows "\<exists>k'. wait_cell svc k = Some (k', polls_trace jobId n, Some e)
           \<and> (if n = 0 then k' = k
               else \<exists>prev. get_celebrity_recognition svc (n - 1) jobId ''TIMESTAMP'' = Inr prev
                          \<and> k' = k\<lparr> getCelebrityRecognition := Some prev \<rparr>)"
proof (cases n)
  case 0
  with at show ?thesis
    by (simp add: wait_cell_def job polls_trace_def)
next
  case (Suc m)
  with before have "in_progress (get_celebrity_recognition svc 0 jobId ''TIMESTAMP'')" by blast
  then obtain r0 where r0: "get_celebrity_recognition svc 0 jobId ''TIMESTAMP'' = Inr r0"
      "JobStatus r0 = ''IN_PROGRESS''"
    using in_progress_Inr by blast
  have shift: "\<forall>i<m. in_progress (get_celebrity_recognition svc (1 + i) jobId ''TIMESTAMP'')"
    using before Suc by simp
  have last: "get_celebrity_recognition svc (1 + m) jobId ''TIMESTAMP'' = Inl e"
    using at Suc by simp
  from poll_loop_raises [where get = "get_celebrity_recognition svc" and n = 1 and jobId = jobId and m = m and tr = "[get_call jobId]",
      OF shift last r0(2)] obtain prev where
    prev: "poll_loop (get_celebrity_recognition svc) jobId 1 [get_call jobId] r0
             = Some ([get_call jobId] @ concat (replicate (Suc m) (poll_step jobId)), Some e, prev)"
      "if m = 0 then prev = r0
       else get_celebrity_recognition svc (1 + m - 1) jobId ''TIMESTAMP'' = Inr prev"
    by blast
  have "get_celebrity_recognition svc (n - 1) jobId ''TIMESTAMP'' = Inr prev"
    using prev(2) r0(1) Suc by (cases m) simp_all
  moreover have "wait_cell svc k
      = Some (k\<lparr> getCelebrityRecognition := Some prev \<rparr>, polls_trace jobId n, Some e)"
    using prev(1) unfolding polls_trace_Suc by (simp add: wait_cell_def job r0(1) Suc)
  ultimately show ?thesis using Suc by simp
qed

lemma wait_cell_forever:
  assumes job: "celebrityJobId k = Some jobId"
  shows "wait_cell svc k = None
           \<longleftrightarrow> (\<forall>i. in_progress (get_celebrity_recognition svc i jobId ''TIMESTAMP''))"
proof
  assume all: "\<forall>i. in_progress (get_celebrity_recognition svc i jobId ''TIMESTAMP'')"
  then obtain r0 where r0: "get_celebrity_recognition svc 0 jobId ''TIMESTAMP'' = Inr r0"
      "JobStatus r0 = ''IN_PROGRESS''"
    using in_progress_Inr by blast
  from all have "\<forall>i. in_progress (get_celebrity_recognition svc (1 + i) jobId ''TIMESTAMP'')"
    by blast
  from poll_loop_forever [where get = "get_celebrity_recognition svc" and n = 1 and jobId = jobId, OF r0(2) this]
  show "wait_cell svc k = None"
    by (simp add: wait_cell_def job r0(1))
next
  assume none: "wait_cell svc k = None"
  show "\<forall>i. in_progress (get_celebrity_recognition svc i jobId ''TIMESTAMP'')"
  proof (rule ccontr)
    assume "\<not> (\<forall>i. in_progress (get_celebrity_recognition svc i jobId ''TIMESTAMP''))"
    then obtain j where j: "\<not> in_progress (get_celebrity_recognition svc j jobId ''TIMESTAMP'')"
      by blast
    define n where "n = (LEAST i. \<not> in_progress (get_celebrity_recognition svc i jobId ''TIMESTAMP''))"
    have stop: "\<not> in_progress (get_celebrity_recognition svc n jobId ''TIMESTAMP'')"
      unfolding n_def using j by (rule LeastI)
    have before: "\<forall>i<n. in_progress (get_celebrity_recognition svc i jobId ''TIMESTAMP'')"
      unfolding n_def using not_less_Least by blast
    show False
    proof (cases "get_celebrity_recognition svc n jobId ''TIMESTAMP''")
      case (Inl e)
      from wait_cell_raises [OF job before Inl] none show False by auto
    next
      case (Inr r)
      with stop have "JobStatus r \<noteq> ''IN_PROGRESS''" by (simp add: in_progress_def)
      from wait_cell_returns [OF job before Inr this] none show False by simp
    qed
  qed
qed

text \<open>
  Claim C1. With a job id stored, the wait calls \<open>get_celebrity_recognition\<close> with that
  id again and again. It never returns exactly when every answer is a response that
  says \<open>IN_PROGRESS\<close>. When the answer to call number \<open>n\<close> is the first response with
  another status, the cell ends there: it has made \<open>n + 1\<close> calls with the stored id,
  slept five seconds and printed a dot between consecutive calls and done nothing
  else, it binds that response and displays its status.
\<close>

theorem wait_cell_polls_until_not_in_progress:
  assumes "celebrityJobId k = Some jobId"
  shows "(wait_cell svc k = None
            \<longleftrightarrow> (\<forall>i. in_progress (get_celebrity_recognition svc i jobId ''TIMESTAMP'')))
       \<and> (\<forall>n r. (\<forall>i<n. in_progress (get_celebrity_recognition svc i jobId ''TIMESTAMP''))
                 \<and> get_celebrity_recognition svc n jobId ''TIMESTAMP'' = Inr r
                 \<and> JobStatus r \<noteq> ''IN_PROGRESS''
             \<longrightarrow> wait_cell svc k
                   = Some (k\<lparr> getCelebrityRecognition := Some r \<rparr>,
                           polls_trace jobId n @ [Display (JobStatus r)], None))"
  using wait_cell_forever [OF assms] wait_cell_returns [OF assms] by blast

definition kernel0 :: kernel where
  "kernel0 = \<lparr> bucketName = ''sagemaker-us-east-1-835319576252'',
               recognizeCelebritiesResponse = None, boxes = None,
               celebrityJobId = Some ''job-1'', getCelebrityRecognition = None,
               customCelebrityResponse = None, cboxes = None \<rparr>"

definition status_after :: "nat \<Rightarrow> nat \<Rightarrow> get_celebrity_recognition_response" where
  "status_after m n = \<lparr> JobStatus = (if n < m then ''IN_PROGRESS'' else ''SUCCEEDED''),
                        Celebrities = [] \<rparr>"

definition rekognition_two_polls :: rekognition where
  "rekognition_two_polls =
     \<lparr> recognize_celebrities = (\<lambda>bucket name. Inl (SdkError ''InvalidS3ObjectException'')),
       start_celebrity_recognition = (\<lambda>bucket name. Inr ''job-1''),
       get_celebrity_recognition = (\<lambda>n jobId sortBy. Inr (status_after 2 n)) \<rparr>"

theorem wait_cell_polls_until_not_in_progress_witness:
  "wait_cell rekognition_two_polls kernel0
     = Some (kernel0\<lparr> getCelebrityRecognition := Some (status_after 2 2) \<rparr>,
             [Called ''get_celebrity_recognition'' [''job-1'', ''TIMESTAMP''],
              Sleep 5, Print ''.'', Called ''get_celebrity_recognition'' [''job-1'', ''TIMESTAMP''],
              Sleep 5, Print ''.'', Called ''get_celebrity_recognition'' [''job-1'', ''TIMESTAMP''],
              Display ''SUCCEEDED''],
             None)"
proof -
  have job: "celebrityJobId kernel0 = Some ''job-1''"
    by (simp add: kernel0_def)
  have before: "\<forall>i<2. in_progress (get_celebrity_recognition rekognition_two_polls i ''job-1'' ''TIMESTAMP'')"
    by (simp add: rekognition_two_polls_def in_progress_def status_after_def)
  have at: "get_celebrity_recognition rekognition_two_polls 2 ''job-1'' ''TIMESTAMP''
              = Inr (status_after 2 2)"
    by (simp add: rekognition_two_polls_def)
  have fin: "JobStatus (status_after 2 2) \<noteq> ''IN_PROGRESS''"
    by (simp add: status_after_def)
  have "wait_cell rekognition_two_polls kernel0
          = Some (kernel0\<lparr> getCelebrityRecognition := Some (status_after 2 2) \<rparr>,
                  polls_trace ''job-1'' 2 @ [Display (JobStatus (status_after 2 2))], None)"
    using wait_cell_polls_until_not_in_progress [OF job, of rekognition_two_polls]
      before at fin by blast
  then show ?thesis
    by (simp add: polls_trace_def poll_step_def get_call_def status_after_def numeral_2_eq_2)
qed

section \<open>Pipeline notebook: the names the pipeline function reads\<close>

text \<open>
  Compiling the pipeline calls the decorated function \<open>mnist_classification\<close> with its
  default arguments. What decides whether that call raises before any SDK code runs
  is Python's name resolution, so a statement of the body is kept as the names it
  reads, in the order Python evaluates them (the callee, then the arguments from left
  to right), and the name it binds, if any. A name assigned anywhere in the body is
  local to the function; reading it before its assignment raises
  \<open>UnboundLocalError\<close>. Any other name is looked up in the globals of the notebook and
  then in the builtins, and raises \<open>NameError\<close> when it is in neither.
\<close>

datatype stmt =
    Assign string "string list"
  | Expr "string list"

fun targets :: "stmt list \<Rightarrow> string list" where
  "targets [] = []"
| "targets (Assign x reads # body) = x # targets body"
| "targets (Expr reads # body) = targets body"

definition lookup ::
  "string list \<Rightarrow> string list \<Rightarrow> string list \<Rightarrow> string list \<Rightarrow> string \<Rightarrow> error option" where
  "lookup local_names globals builtins bound x =
     (if x \<in> set local_names
      then (if x \<in> set bound then None else Some (UnboundLocalError x))
      else if x \<in> set globals \<or> x \<in> set builtins then None
      else Some (NameError x))"

fun read_all ::
  "string list \<Rightarrow> string list \<Rightarrow> string list \<Rightarrow> string list \<Rightarrow> string list \<Rightarrow> error option" where
  "read_all local_names globals builtins bound [] = None"
| "read_all local_names globals builtins bound (x # xs) =
     (case lookup local_names globals builtins bound x of
        Some e \<Rightarrow> Some e
      | None \<Rightarrow> read_all local_names globals builtins bound xs)"

fun exec_body ::
  "string list \<Rightarrow> string list \<Rightarrow> string list \<Rightarrow> string list \<Rightarrow> stmt list \<Rightarrow> error + string list" where
  "exec_body local_names globals builtins bound [] = Inr bound"
| "exec_body local_names globals builtins bound (Assign x reads # body) =
     (case read_all local_names globals builtins bound reads of
        Some e \<Rightarrow> Inl e
      | None \<Rightarrow> exec_body local_names globals builtins (x # bound) body)"
| "exec_body local_names globals builtins bound (Expr reads # body) =
     (case read_all local_names globals builtins bound reads of
        Some e \<Rightarrow> Inl e
      | None \<Rightarrow> exec_body local_names globals builtins bound body)"

definition call_function ::
  "string list \<Rightarrow> string list \<Rightarrow> string list \<Rightarrow> stmt list \<Rightarrow> error + string list" where
  "call_function globals builtins params body =
     exec_body (params @ targets body) globals builtins params body"

text \<open>
  \<^verbatim>\<open>
  def mnist_classification(role_arn=SAGEMAKER_ROLE_ARN, bucket_name=S3_BUCKET):
      region = "us-east-1"
      processing_instance_type = 'ml.c5.2xlarge'
      processing_instance_count = 2
      training_instance_type = 'ml.c5.4xlarge'
      training_instance_count = 1
      deploy_instance_type = 'ml.m5.4xlarge'
      deploy_instance_count = 1
      processing_image = '763104351884.dkr.ecr.us-east-1.amazonaws.com/pytorch-training:...'
      training_image = "382416733822.dkr.ecr.us-east-1.amazonaws.com/kmeans:1"
  #    serving_image='763104351884.dkr.ecr.us-west-2.amazonaws.com/tensorflow-inference:1.15.2-cpu'
      process = sagemaker_process_op(
          role=role_arn, region=region, image=processing_image,
          instance_type=instance_type,
          container_entrypoint=[...],
          input_config=[processing_input(...),
                        processing_input("source_code", "{}".format(processing_code_s3_uri), ...)],
          output_config=[processing_output("train_data", f"s3://{bucket_name}/mnist_kmeans_example/", ...),
                         processing_output("test_data", f"s3://{bucket_name}/mnist_kmeans_example/", ...),
                         processing_output("valid_data", f"s3://{bucket_name}/mnist_kmeans_example/input/", ...)])
      train_channels = [training_input("train", f"s3://{bucket_name}/mnist_kmeans_example/train_data")]
      train_output_location = f"s3://{bucket_name}/mnist_kmeans_example/output"
      training = sagemaker_train_op(
          region=region, image=training_image, hyperparameters={...},
          channels=train_channels, instance_type=instance_type,
          model_artifact_path=train_output_location, role=role_arn).after(process)
      create_model = sagemaker_model_op(
          region=region, model_name=training.outputs["job_name"],
          image=serving_image,
          model_artifact_url=training.outputs["model_artifact_url"], role=role_arn)
      sagemaker_deploy_op(
          region=region, model_name_1=create_model.output,
          instance_type=deploy_instance_type)
  \<close>
\<close>

definition mnist_classification_params :: "string list" where
  "mnist_classification_params = [''role_arn'', ''bucket_name'']"

definition mnist_classification_body :: "stmt list" where
  "mnist_classification_body =
     [Assign ''region'' [],
      Assign ''processing_instance_type'' [],
      Assign ''processing_instance_count'' [],
      Assign ''training_instance_type'' [],
      Assign ''training_instance_count'' [],
      Assign ''deploy_instance_type'' [],
      Assign ''deploy_instance_count'' [],
      Assign ''processing_image'' [],
      Assign ''training_image'' [],
      Assign ''process''
        [''sagemaker_process_op'', ''role_arn'', ''region'', ''processing_image'',
         ''instance_type'',
         ''processing_input'', ''processing_input'', ''processing_code_s3_uri'',
         ''processing_output'', ''bucket_name'', ''processing_output'', ''bucket_name'',
         ''processing_output'', ''bucket_name''],
      Assign ''train_channels'' [''training_input'', ''bucket_name''],
      Assign ''train_output_location'' [''bucket_name''],
      Assign ''training''
        [''sagemaker_train_op'', ''region'', ''training_image'', ''train_channels'',
         ''instance_type'', ''train_output_location'', ''role_arn'', ''process''],
      Assign ''create_model''
        [''sagemaker_model_op'', ''region'', ''training'', ''serving_image'', ''training'',
         ''role_arn''],
      Expr [''sagemaker_deploy_op'', ''region'', ''create_model'', ''deploy_instance_type'']]"

text \<open>
  The names the cells above the definition bind at the top level of the notebook, in
  the order of the cells, and the builtin functions of Python 3.6.
\<close>

definition pipeline_notebook_globals :: "string list" where
  "pipeline_notebook_globals =
     [''HTML'', ''boto3'', ''AWS_REGION_AS_SLIST'', ''AWS_REGION'', ''AWS_ACCOUNT_ID'', ''S3_BUCKET'',
      ''kfp'', ''components'', ''dsl'', ''use_aws_secret'',
      ''sagemaker_hpo_op'', ''sagemaker_process_op'', ''sagemaker_train_op'',
      ''sagemaker_model_op'', ''sagemaker_deploy_op'',
      ''SAGEMAKER_ROLE_ARN'', ''S3_PIPELINE_PATH'', ''AWS_ECR_REGISTRY'',
      ''processing_code_s3_uri'', ''training_code_s3_uri'',
      ''processing_input'', ''processing_output'', ''training_input'',
      ''mnist_classification'']"

definition python_builtins :: "string list" where
  "python_builtins =
     [''abs'', ''all'', ''any'', ''ascii'', ''bin'', ''bool'', ''bytearray'', ''bytes'', ''callable'',
      ''chr'', ''classmethod'', ''compile'', ''complex'', ''delattr'', ''dict'', ''dir'', ''divmod'',
      ''enumerate'', ''eval'', ''exec'', ''filter'', ''float'', ''format'', ''frozenset'', ''getattr'',
      ''globals'', ''hasattr'', ''hash'', ''help'', ''hex'', ''id'', ''input'', ''int'', ''isinstance'',
      ''issubclass'', ''iter'', ''len'', ''list'', ''locals'', ''map'', ''max'', ''memoryview'', ''min'',
      ''next'', ''object'', ''oct'', ''open'', ''ord'', ''pow'', ''print'', ''property'', ''range'',
      ''repr'', ''reversed'', ''round'', ''set'', ''setattr'', ''slice'', ''sorted'', ''staticmethod'',
      ''str'', ''sum'', ''super'', ''tuple'', ''type'', ''vars'', ''zip'', ''__import__'']"

definition mnist_classification :: "string list \<Rightarrow> error + string list" where
  "mnist_classification globals =
     call_function globals python_builtins mnist_classification_params mnist_classification_body"

text \<open>
  Claim C2 fails on the notebook. The body reads \<open>instance_type\<close>, which no cell and
  no statement of the function binds (the function binds \<open>processing_instance_type\<close>
  and \<open>training_instance_type\<close> and reads neither), so the call raises \<open>NameError\<close>
  at the first keyword argument that uses it; and with that name bound it would raise
  at \<open>serving_image\<close>, whose assignment is commented out.
\<close>

theorem mnist_classification_raises_NameError:
  "mnist_classification pipeline_notebook_globals = Inl (NameError ''instance_type'')
   \<and> mnist_classification (''instance_type'' # pipeline_notebook_globals)
       = Inl (NameError ''serving_image'')
   \<and> (\<exists>bound. mnist_classification (''serving_image'' # ''instance_type'' # pipeline_notebook_globals)
                 = Inr bound)"
  by (simp add: mnist_classification_def call_function_def mnist_classification_params_def
      mnist_classification_body_def pipeline_notebook_globals_def python_builtins_def lookup_def)


section \<open>Training notebook: metric definitions scraped from the log\<close>

text \<open>
  The notebook hands \<open>metrics_definitions\<close> to the training service, which applies
  each \<open>Regex\<close> to the lines of the training log and records the text of its
  capture group under \<open>Name\<close>. The regular-expression engine is the service's,
  not the repository's; the model below gives the usual semantics (the leftmost
  match, a greedy \<open>+\<close> that backtracks) to the fragment these four expressions are
  written in: literal characters, an escaped punctuation character, \<open>.\<close>, a bracket
  class of characters and ranges, \<open>+\<close> after one of these, and one pair of capturing
  parentheses. Any other expression is refused (\<open>None\<close>).
\<close>

datatype atom = Lit char | Class "(char \<times> char) list" | AnyChar

datatype tok = One atom | Plus atom | Open | Close

definition in_range :: "char \<Rightarrow> char \<times> char \<Rightarrow> bool" where
  "in_range c r = ((of_char (fst r) :: nat) \<le> of_char c \<and> (of_char c :: nat) \<le> of_char (snd r))"

fun accepts :: "atom \<Rightarrow> char \<Rightarrow> bool" where
  "accepts (Lit l) c = (c = l)"
| "accepts (Class rs) c = list_ex (in_range c) rs"
| "accepts AnyChar c = (c \<noteq> CHR 0x0A)"

text \<open>The backslash, which a string literal of this theory cannot hold.\<close>

definition backslash :: char where
  "backslash = CHR 0x5C"

text \<open>The inside of a bracket class, after the opening bracket.\<close>

fun parse_class :: "string \<Rightarrow> (char \<times> char) list \<Rightarrow> ((char \<times> char) list \<times> string) option" where
  "parse_class [] acc = None"
| "parse_class (c # cs) acc =
     (if c = CHR '']'' then Some (acc, cs)
      else if c = backslash then
        (case cs of [] \<Rightarrow> None | e # rest \<Rightarrow> parse_class rest (acc @ [(e, e)]))
      else
        (case cs of
           d # hi # rest \<Rightarrow>
             (if d = CHR ''-'' \<and> hi \<noteq> CHR '']'' then parse_class rest (acc @ [(c, hi)])
              else parse_class cs (acc @ [(c, c)]))
         | _ \<Rightarrow> parse_class cs (acc @ [(c, c)])))"

definition parse_atom :: "char \<Rightarrow> string \<Rightarrow> (atom \<times> string) option" where
  "parse_atom c cs =
     (if c = CHR ''['' then
        (case parse_class cs [] of None \<Rightarrow> None | Some (rs, rest) \<Rightarrow> Some (Class rs, rest))
      else if c = backslash then
        (case cs of
           [] \<Rightarrow> None
         | e # rest \<Rightarrow> (if e \<in> set ''.()[]+*?{}|^$/-'' \<or> e = backslash then Some (Lit e, rest) else None))
      else if c = CHR ''.'' then Some (AnyChar, cs)
      else if c \<in> set ''+*?{}|^$]'' then None
      else Some (Lit c, cs))"

lemma parse_class_shorter: "parse_class s acc = Some (rs, rest) \<Longrightarrow> length rest < length s"
  by (induction s acc rule: parse_class.induct) (auto split: if_splits list.splits)

lemma parse_atom_shorter: "parse_atom c cs = Some (a, rest) \<Longrightarrow> length rest \<le> length cs"
  by (auto simp: parse_atom_def split: if_splits option.splits list.splits dest: parse_class_shorter)

function parse :: "string \<Rightarrow> tok list option" where
  "parse [] = Some []"
| "parse (c # cs) =
     (if c = CHR ''('' then map_option ((#) Open) (parse cs)
      else if c = CHR '')'' then map_option ((#) Close) (parse cs)
      else
        (case parse_atom c cs of
           None \<Rightarrow> None
         | Some (a, rest) \<Rightarrow>
            (case rest of
               [] \<Rightarrow> Some [One a]
             | q # rest' \<Rightarrow>
                 (if q = CHR ''+'' then map_option ((#) (Plus a)) (parse rest')
                  else map_option ((#) (One a)) (parse rest)))))"
  by pat_completeness auto
termination
  by (relation "measure length") (auto dest: parse_atom_shorter)

text \<open>
  Matching at one position. \<open>opened\<close> is the input that remained when the group
  was opened, \<open>cap\<close> the text of the group once it is closed. A \<open>+\<close> tries the
  longest run first and gives characters back one at a time.
\<close>

definition first_some :: "'a option list \<Rightarrow> 'a option" where
  "first_some xs = (case filter (\<lambda>x. x \<noteq> None) xs of [] \<Rightarrow> None | x # _ \<Rightarrow> x)"

fun match_here :: "tok list \<Rightarrow> string \<Rightarrow> string option \<Rightarrow> string option \<Rightarrow> string option option" where
  "match_here [] s opened cap = Some cap"
| "match_here (Open # ts) s opened cap = match_here ts s (Some s) cap"
| "match_here (Close # ts) s opened cap =
     (case opened of
        None \<Rightarrow> None
      | Some s0 \<Rightarrow> match_here ts s None (Some (take (length s0 - length s) s0)))"
| "match_here (One a # ts) s opened cap =
     (case s of
        [] \<Rightarrow> None
      | c # cs \<Rightarrow> (if accepts a c then match_here ts cs opened cap else None))"
| "match_here (Plus a # ts) s opened cap =
     first_some (map (\<lambda>k. match_here ts (drop k s) opened cap)
                     (rev [1 ..< Suc (length (takeWhile (accepts a) s))]))"

text \<open>\<open>re.search\<close>: the first position of the line at which the expression matches.\<close>

fun search :: "tok list \<Rightarrow> string \<Rightarrow> string option option" where
  "search ts [] = match_here ts [] None None"
| "search ts (c # cs) =
     (case match_here ts (c # cs) None None of
        Some cap \<Rightarrow> Some cap
      | None \<Rightarrow> search ts cs)"

definition scrape :: "string \<Rightarrow> string \<Rightarrow> string option" where
  "scrape regex log_line =
     (case parse regex of
        None \<Rightarrow> None
      | Some ts \<Rightarrow>
          (if count_list ts Open = 1 \<and> count_list ts Close = 1
           then (case search ts log_line of Some (Some v) \<Rightarrow> Some v | _ \<Rightarrow> None)
           else None))"


text \<open>The matcher on small expressions: a greedy \<open>+\<close> gives back what the rest needs.\<close>

lemma scrape_examples:
  "scrape ''a+(a+)b'' ''xaaab aab'' = Some ''a''"
  "scrape ''a+(.+)b'' ''xaaab aab'' = Some ''b aa''"
  "scrape ''x([0-9]+)'' ''x y x12 x3'' = Some ''12''"
  "scrape ''(a+)+b'' ''aab'' = None"
  by code_simp+

text \<open>
  \<^verbatim>\<open>
  metrics_definitions = [
       {'Name': 'root_mean_squared_error', 'Regex': 'root_mean_squared_error: ([0-9\\.]+)'},
       {'Name': 'top_10_categorical_accuracy', 'Regex': 'factorized_top_k/top_10_categorical_accuracy: ([0-9\\.]+)'},
       {'Name': 'top_50_categorical_accuracy', 'Regex': 'factorized_top_k/top_50_categorical_accuracy: ([0-9\\.]+)'},
       {'Name': 'top_100_categorical_accuracy', 'Regex': 'factorized_top_k/top_100_categorical_accuracy: ([0-9\\.]+)'}
  ]
  \<close>
  In the Python literal \<open>\\.\<close> is one backslash followed by a dot, so each
  expression ends with the group \<open>([0-9\.]+)\<close>. The sample line is the one the
  notebook quotes above the definitions.
\<close>

record metric_definition =
  Name :: string
  Regex :: string

definition number_group :: string where
  "number_group = ''([0-9'' @ [backslash] @ ''.]+)''"

definition metrics_definitions :: "metric_definition list" where
  "metrics_definitions =
     [\<lparr> Name = ''root_mean_squared_error'',
         Regex = ''root_mean_squared_error: '' @ number_group \<rparr>,
      \<lparr> Name = ''top_10_categorical_accuracy'',
         Regex = ''factorized_top_k/top_10_categorical_accuracy: '' @ number_group \<rparr>,
      \<lparr> Name = ''top_50_categorical_accuracy'',
         Regex = ''factorized_top_k/top_50_categorical_accuracy: '' @ number_group \<rparr>,
      \<lparr> Name = ''top_100_categorical_accuracy'',
         Regex = ''factorized_top_k/top_100_categorical_accuracy: '' @ number_group \<rparr>]"

definition sample_log_line :: string where
  "sample_log_line =
     ''499/500 [=====>..] - ETA: 3s - root_mean_squared_error: 1.1198''
     @ '' - factorized_top_k/top_10_categorical_accuracy: 0.481''
     @ '' - factorized_top_k/top_50_categorical_accuracy: 0.607''
     @ '' - factorized_top_k/top_100_categorical_accuracy: 0.885''"

definition scraped_metrics :: "metric_definition list \<Rightarrow> string \<Rightarrow> (string \<times> string option) list" where
  "scraped_metrics defs log_line = map (\<lambda>m. (Name m, scrape (Regex m) log_line)) defs"

text \<open>
  Claim C10. Applied to the sample log line of the notebook, the four expressions of
  \<open>metrics_definitions\<close>, each with exactly one capture group, capture \<open>1.1198\<close>,
  \<open>0.481\<close>, \<open>0.607\<close> and \<open>0.885\<close> under their metric names.
\<close>

theorem metrics_definitions_capture_sample_values:
  "scraped_metrics metrics_definitions sample_log_line
     = [(''root_mean_squared_error'', Some ''1.1198''),
        (''top_10_categorical_accuracy'', Some ''0.481''),
        (''top_50_categorical_accuracy'', Some ''0.607''),
        (''top_100_categorical_accuracy'', Some ''0.885'')]"
  by code_simp


section \<open>Training notebook: the script and its service calls\<close>








text \<open>
  The managed services the notebook calls. \<open>session_setup\<close> stands for the cell that
  creates the session and reads \<open>bucket\<close>, \<open>role\<close> and \<open>region\<close>; \<open>time_now\<close> is
  \<open>int(time.time())\<close> at its first and second reading. \<open>Experiment.create\<close> and
  \<open>Trial.create\<close> answer with the name of what they created, \<open>fit\<close> (called with
  \<open>wait=False\<close>) with the name of the training job it started, which the notebook
  reads from \<open>estimator.latest_training_job.name\<close>. \<open>analytics_dataframe\<close> answers
  with the column \<open>TrialComponentName\<close> of the lineage table.
\<close>

record sagemaker =
  session_setup :: "error + string \<times> string \<times> string"
  time_now :: "nat \<Rightarrow> nat"
  experiment_create :: "string \<Rightarrow> error + string"
  trial_create :: "string \<Rightarrow> string \<Rightarrow> error + string"
  fit :: "string \<Rightarrow> (string \<times> string) list \<Rightarrow> string \<Rightarrow> string \<Rightarrow> error + string"
  wait :: "string \<Rightarrow> error option"
  analytics_dataframe :: "string \<Rightarrow> error + string list"
  describe_trial_component :: "string \<Rightarrow> error option"









definition copy_model_command :: "string \<Rightarrow> string \<Rightarrow> string" where
  "copy_model_command bucket job =
     ''aws s3 cp s3://'' @ bucket @ ''/'' @ job @ ''/output/model.tar.gz ./model.tar.gz''"









definition is_download :: "event \<Rightarrow> bool" where
  "is_download ev = (case ev of Shell cmd \<Rightarrow> take 10 cmd = ''aws s3 cp '' | _ \<Rightarrow> False)"








lemma is_download_copy: "is_download (Shell (copy_model_command bucket job))"
  by (simp add: is_download_def copy_model_command_def)










section \<open>Training notebook: where the stored identifiers go\<close>







section \<open>The container-job manifest\<close>

















section \<open>Failing service calls\<close>










text \<open>Services on which the calls fail, one failure for each place above.\<close>

definition rekognition_failing :: rekognition where
  "rekognition_failing =
     \<lparr> recognize_celebrities = (\<lambda>bucket name. Inl (SdkError ''InvalidS3ObjectException'')),
       start_celebrity_recognition = (\<lambda>bucket name. Inl (SdkError ''AccessDeniedException'')),
       get_celebrity_recognition =
         (\<lambda>n jobId sortBy. if n = 0 then Inr (status_after 1 0)
                            else Inl (SdkError ''ThrottlingException'')) \<rparr>"





text \<open>
  The outputs stored in the notebook show such a run: the cell that calls
  \<open>recognize_celebrities\<close> ended with \<open>InvalidS3ObjectException\<close>, and the cell that
  reads \<open>recognizeCelebritiesResponse\<close> afterwards ended with \<open>NameError\<close>, the name
  never having been bound.
\<close>

lemma recorded_run_reproduced:
  "recognize_cell rekognition_failing kernel0
     = (kernel0, [Called ''recognize_celebrities'' [bucketName kernel0, imageName]],
        Some (SdkError ''InvalidS3ObjectException''))
   \<and> show_boxes_cell io (fst (recognize_cell rekognition_failing kernel0))
     = (kernel0\<lparr> boxes := Some [] \<rparr>, [], Some (NameError ''recognizeCelebritiesResponse''))"
  by (simp add: recognize_cell_def show_boxes_cell_def rekognition_failing_def kernel0_def)

end
